theory Spec2Isabelle
  imports Complex_Main "HOL-Library.List_Lexorder"
begin

section \<open>Text: Python strings as lists of code points\<close>

text \<open>
  A Python \<^verbatim>\<open>str\<close> is a sequence of Unicode code points, so a string is modelled as a
  list of natural numbers (one per code point); the labels of the program are Japanese
  and do not fit the 8-bit characters of HOL's \<open>string\<close>. \<open>asc\<close> embeds an ASCII
  literal.
\<close>

type_synonym ustr = "nat list"

definition asc :: "string \<Rightarrow> ustr" where
  "asc s = map of_char s"

definition nen :: nat where "nen = 24180"       \<comment> \<open>U+5E74, "year"\<close>
definition gatsu :: nat where "gatsu = 26376"   \<comment> \<open>U+6708, "month"\<close>
definition do_ch :: nat where "do_ch = 24230"   \<comment> \<open>U+5EA6, second character of "fiscal year"\<close>
definition ji :: nat where "ji = 33258"         \<comment> \<open>U+81EA, "from"\<close>

definition sonota :: ustr where
  "sonota = [12381, 12398, 20182]"              \<comment> \<open>U+305D U+306E U+4ED6, "other"\<close>




definition key_column :: ustr where
  "key_column = [20849, 36890, 38917, 30446]"   \<comment> \<open>the name of the label column, "common item"\<close>

text \<open>
  \<^verbatim>\<open>str.isspace\<close>, which \<^verbatim>\<open>str.strip()\<close> and the pattern \<^verbatim>\<open>\s\<close> both use.
\<close>

definition is_space :: "nat \<Rightarrow> bool" where
  "is_space c \<longleftrightarrow>
     (9 \<le> c \<and> c \<le> 13) \<or> (28 \<le> c \<and> c \<le> 32) \<or> c = 133 \<or> c = 160 \<or> c = 5760 \<or>
     (8192 \<le> c \<and> c \<le> 8202) \<or> c = 8232 \<or> c = 8233 \<or> c = 8239 \<or> c = 8287 \<or> c = 12288"

text \<open>
  The decimal digits of Unicode (category Nd, \<^verbatim>\<open>str.isdecimal\<close>, the pattern \<^verbatim>\<open>\d\<close>) come in
  blocks of ten consecutive code points with the values 0 to 9; the table lists the code
  point of each block's zero (Unicode 14.0), the ASCII digits first.
\<close>

definition decimal_zeros :: "nat list" where
  "decimal_zeros =
    [48, 1632, 1776, 1984, 2406, 2534, 2662, 2790, 2918, 3046, 3174, 3302, 3430, 3558, 3664,
     3792, 3872, 4160, 4240, 6112, 6160, 6470, 6608, 6784, 6800, 6992, 7088, 7232, 7248,
     42528, 43216, 43264, 43472, 43504, 43600, 44016, 65296, 66720, 68912, 69734, 69872,
     69942, 70096, 70384, 70736, 70864, 71248, 71360, 71472, 71904, 72016, 72784, 73040,
     73120, 92768, 92864, 93008, 120782, 120792, 120802, 120812, 120822, 123200, 123632,
     125264, 130032]"

definition decimal_value :: "nat \<Rightarrow> nat option" where
  "decimal_value c =
     (case filter (\<lambda>z. z \<le> c \<and> c < z + 10) decimal_zeros of
        [] \<Rightarrow> None
      | z # _ \<Rightarrow> Some (c - z))"

definition is_decimal :: "nat \<Rightarrow> bool" where
  "is_decimal c \<longleftrightarrow> decimal_value c \<noteq> None"



text \<open>\<^verbatim>\<open>str.strip()\<close>: whitespace removed at both ends.\<close>

definition strip :: "ustr \<Rightarrow> ustr" where
  "strip s = rev (dropWhile is_space (rev (dropWhile is_space s)))"

text \<open>
  \<^verbatim>\<open>str.upper()\<close> maps each character on its own. The ASCII letters are mapped here; the
  upper-case mapping of the code points from 128 on is a table of the Unicode database,
  taken as the parameter \<open>uc\<close> (a character may map to several).
\<close>

definition upper :: "(nat \<Rightarrow> ustr) \<Rightarrow> ustr \<Rightarrow> ustr" where
  "upper uc s =
     concat (map (\<lambda>c. if 97 \<le> c \<and> c \<le> 122 then [c - 32] else if c < 128 then [c] else uc c) s)"


fun first_some :: "'a option list \<Rightarrow> 'a option" where
  "first_some [] = None"
| "first_some (None # xs) = first_some xs"
| "first_some (Some x # xs) = Some x"

section \<open>The regular expressions of the program\<close>

text \<open>
  The patterns of the program are sequences of single-character classes with greedy
  counts, capture-group brackets and the anchors \<^verbatim>\<open>^\<close> and \<^verbatim>\<open>$\<close>. \<open>rmatch\<close> is the
  backtracking matcher of Python's \<^verbatim>\<open>re\<close> on such sequences: a count is tried from the
  largest possible down, and the first way to match the rest wins.
\<close>

datatype cls =
    Lit nat           \<comment> \<open>one character\<close>
  | LitI nat nat      \<comment> \<open>a letter under IGNORECASE: either case\<close>
  | Dig               \<comment> \<open>\<^verbatim>\<open>\d\<close>\<close>
  | Spc               \<comment> \<open>\<^verbatim>\<open>\s\<close>\<close>
  | Rng nat nat       \<comment> \<open>\<^verbatim>\<open>[a-b]\<close>\<close>

fun cls_ok :: "cls \<Rightarrow> nat \<Rightarrow> bool" where
  "cls_ok (Lit a) c = (c = a)"
| "cls_ok (LitI a b) c = (c = a \<or> c = b)"
| "cls_ok Dig c = is_decimal c"
| "cls_ok Spc c = is_space c"
| "cls_ok (Rng a b) c = (a \<le> c \<and> c \<le> b)"

datatype item =
    Rep cls nat "nat option"   \<comment> \<open>\<^verbatim>\<open>x{lo,hi}\<close>, greedy; no upper bound when \<open>None\<close>\<close>
  | OptN cls nat               \<comment> \<open>\<^verbatim>\<open>(x{n})?\<close>, greedy\<close>
  | Open                       \<comment> \<open>a capture group begins\<close>
  | Close                      \<comment> \<open>a capture group ends\<close>
  | Bol                        \<comment> \<open>\<^verbatim>\<open>^\<close>\<close>
  | Eol                        \<comment> \<open>\<^verbatim>\<open>$\<close>: the end, or just before a final newline\<close>

abbreviation one :: "cls \<Rightarrow> item" where
  "one c \<equiv> Rep c (Suc 0) (Some (Suc 0))"

text \<open>The counts an item tries, in order, when \<open>n\<close> characters of its class are ahead.\<close>

fun counts :: "item \<Rightarrow> nat \<Rightarrow> nat list" where
  "counts (Rep c lo None) n = rev [lo ..< Suc n]"
| "counts (Rep c lo (Some hi)) n = rev [lo ..< Suc (min hi n)]"
| "counts (OptN c k) n = (if k \<le> n then [k, 0] else [0])"
| "counts _ n = []"

fun item_cls :: "item \<Rightarrow> cls" where
  "item_cls (Rep c lo hi) = c"
| "item_cls (OptN c k) = c"
| "item_cls _ = Dig"

text \<open>
  \<open>rmatch p b m g caps s\<close>: match the items \<open>p\<close> against the text \<open>s\<close> ahead, where
  \<open>b\<close> says that the match began at the start of the string, \<open>m\<close> is the text matched so
  far, \<open>g\<close> the length of \<open>m\<close> when the open group began and \<open>caps\<close> the groups closed so far.
  The result is the whole match (group 0) and the groups.
\<close>

fun rmatch :: "item list \<Rightarrow> bool \<Rightarrow> ustr \<Rightarrow> nat \<Rightarrow> ustr list \<Rightarrow> ustr \<Rightarrow> (ustr \<times> ustr list) option" where
  "rmatch [] b m g caps s = Some (m, caps)"
| "rmatch (Open # p) b m g caps s = rmatch p b m (length m) caps s"
| "rmatch (Close # p) b m g caps s = rmatch p b m g (caps @ [drop g m]) s"
| "rmatch (Bol # p) b m g caps s = (if b \<and> m = [] then rmatch p b m g caps s else None)"
| "rmatch (Eol # p) b m g caps s = (if s = [] \<or> s = [10] then rmatch p b m g caps s else None)"
| "rmatch (it # p) b m g caps s =
     first_some (map (\<lambda>k. rmatch p b (m @ take k s) g caps (drop k s))
                     (counts it (length (takeWhile (cls_ok (item_cls it)) s))))"

text \<open>\<^verbatim>\<open>pattern.search(s)\<close>: the match at the leftmost position that has one.\<close>

fun search_from :: "item list \<Rightarrow> bool \<Rightarrow> ustr \<Rightarrow> (ustr \<times> ustr list) option" where
  "search_from p b [] = rmatch p b [] 0 [] []"
| "search_from p b (c # s) =
     (case rmatch p b [] 0 [] (c # s) of
        Some r \<Rightarrow> Some r
      | None \<Rightarrow> search_from p False s)"

definition re_search :: "item list \<Rightarrow> ustr \<Rightarrow> (ustr \<times> ustr list) option" where
  "re_search p s = search_from p True s"

section \<open>Period detection\<close>

text \<open>The seven patterns of \<^verbatim>\<open>detect_year_header\<close>, in the order of the source.\<close>

definition pat_quarter :: "item list" where
  \<comment> \<open>\<^verbatim>\<open>(20\d{2}Q[1-4])\<close> with IGNORECASE\<close>
  "pat_quarter = [Open, one (Lit 50), one (Lit 48), Rep Dig 2 (Some 2), one (LitI 81 113),
                  one (Rng 49 52), Close]"

definition pat_from :: "item list" where
  \<comment> \<open>\<^verbatim>\<open>\(?<ji>\s*(\d{4})<nen>(\d{1,2})<gatsu>\<close>\<close>
  "pat_from = [Rep (Lit 40) 0 (Some 1), one (Lit ji), Rep Spc 0 None,
               Open, Rep Dig 4 (Some 4), Close, one (Lit nen),
               Open, Rep Dig 1 (Some 2), Close, one (Lit gatsu)]"

definition pat_year_month :: "item list" where
  \<comment> \<open>\<^verbatim>\<open>(\d{4})<nen>(\d{1,2})<gatsu>\<close>\<close>
  "pat_year_month = [Open, Rep Dig 4 (Some 4), Close, one (Lit nen),
                     Open, Rep Dig 1 (Some 2), Close, one (Lit gatsu)]"

definition pat_fiscal :: "item list" where
  \<comment> \<open>\<^verbatim>\<open>(\d{4})<nen><do>\<close>\<close>
  "pat_fiscal = [Open, Rep Dig 4 (Some 4), Close, one (Lit nen), one (Lit do_ch)]"

definition pat_yy_m :: "item list" where
  \<comment> \<open>\<^verbatim>\<open>^\'?(\d{2})/(\d{1,2})$\<close>\<close>
  "pat_yy_m = [Bol, Rep (Lit 39) 0 (Some 1), Open, Rep Dig 2 (Some 2), Close, one (Lit 47),
               Open, Rep Dig 1 (Some 2), Close, Eol]"

definition pat_yyyy_m :: "item list" where
  \<comment> \<open>\<^verbatim>\<open>(\d{4})/(\d{1,2})\<close>\<close>
  "pat_yyyy_m = [Open, Rep Dig 4 (Some 4), Close, one (Lit 47), Open, Rep Dig 1 (Some 2), Close]"

definition pat_plain :: "item list" where
  \<comment> \<open>\<^verbatim>\<open>^20\d{2}(\d{2})?$\<close>; its group is not read\<close>
  "pat_plain = [Bol, one (Lit 50), one (Lit 48), Rep Dig 2 (Some 2), OptN Dig 2, Eol]"

text \<open>The formatters read group 0 (the whole match) and the groups 1 and 2.\<close>

definition grp :: "nat \<Rightarrow> (ustr \<times> ustr list) \<Rightarrow> ustr" where
  "grp n mt = (if n = 0 then fst mt else snd mt ! (n - 1))"

definition fmt_slash :: "(ustr \<times> ustr list) \<Rightarrow> ustr" where
  "fmt_slash mt = grp 1 mt @ [47] @ grp 2 mt"

definition patterns :: "(nat \<Rightarrow> ustr) \<Rightarrow> (item list \<times> ((ustr \<times> ustr list) \<Rightarrow> ustr)) list" where
  "patterns uc =
    [(pat_quarter, \<lambda>mt. upper uc (grp 1 mt)),
     (pat_from, fmt_slash),
     (pat_year_month, fmt_slash),
     (pat_fiscal, \<lambda>mt. grp 1 mt @ [nen, do_ch]),
     (pat_yy_m, \<lambda>mt. [50, 48] @ grp 1 mt @ [47] @ grp 2 mt),
     (pat_yyyy_m, fmt_slash),
     (pat_plain, \<lambda>mt. grp 0 mt)]"

definition try_pattern :: "ustr \<Rightarrow> (item list \<times> ((ustr \<times> ustr list) \<Rightarrow> ustr)) \<Rightarrow> ustr option" where
  "try_pattern v pf = map_option (snd pf) (re_search (fst pf) v)"

definition detect_year_header :: "(nat \<Rightarrow> ustr) \<Rightarrow> ustr \<Rightarrow> ustr option" where
  "detect_year_header uc cell_value =
     first_some (map (try_pattern (strip cell_value)) (patterns uc))"

text \<open>A quarter code such as 2024Q1: what the first pattern matches.\<close>

definition quarter_code :: "ustr \<Rightarrow> bool" where
  "quarter_code q \<longleftrightarrow>
     (case q of
        [a, b, c, d, e, f] \<Rightarrow>
          a = 50 \<and> b = 48 \<and> is_decimal c \<and> is_decimal d \<and> (e = 81 \<or> e = 113) \<and> 49 \<le> f \<and> f \<le> 52
      | _ \<Rightarrow> False)"

section \<open>Sheets, frames and the library\<close>

text \<open>
  A cell of the sheet read from the workbook is either missing (\<open>NA\<close>, pandas' NaN) or has
  a value; the program reads a value only through its text (\<^verbatim>\<open>str\<close>, \<^verbatim>\<open>astype(str)\<close>), so a
  value is represented by that text. A sheet is the list of its rows, all of one width.
\<close>

datatype cell = NA | S ustr

type_synonym row = "cell list"
type_synonym sheet = "row list"

datatype error = KeyError | AttributeError | ValueError


text \<open>
  What the program takes from its libraries and the repository does not fix:
  the upper-case table of Unicode beyond ASCII; what \<^verbatim>\<open>Series.astype(str)\<close> makes of a missing
  value (the text "nan" in pandas before 3.0, still missing from 3.0 on); and the number
  that \<^verbatim>\<open>pd.to_numeric(..., errors='coerce')\<close> reads from one text (\<open>None\<close> where it
  gives NaN). Numbers are rationals: the rounding of floating point is outside the model.
\<close>

record pylib =
  upper_tab :: "nat \<Rightarrow> ustr"
  astype_na :: cell
  to_numeric :: "ustr \<Rightarrow> rat option"

text \<open>
  A frame is what a merger returns and what the aggregator merges: the label column (named
  by \<open>key_column\<close>) and the period columns \<open>cols\<close>; each row of \<open>body\<close> is a label with
  one value per period column, \<open>None\<close> for NaN.
\<close>

record frame =
  cols :: "ustr list"
  body :: "(ustr \<times> rat option list) list"


definition ncols :: "sheet \<Rightarrow> nat" where
  "ncols sh = (case sh of [] \<Rightarrow> 0 | r # _ \<Rightarrow> length r)"

definition cell_at :: "row \<Rightarrow> nat \<Rightarrow> cell" where
  "cell_at r c = (if c < length r then r ! c else NA)"

definition cell0 :: "row \<Rightarrow> cell" where
  "cell0 r = cell_at r 0"

definition cell_str :: "cell \<Rightarrow> ustr" where
  \<comment> \<open>\<^verbatim>\<open>str(x)\<close>\<close>
  "cell_str c = (case c of NA \<Rightarrow> asc ''nan'' | S s \<Rightarrow> s)"

definition astype_str :: "pylib \<Rightarrow> cell \<Rightarrow> cell" where
  "astype_str L c = (case c of NA \<Rightarrow> astype_na L | S s \<Rightarrow> S s)"



fun index_of :: "'a \<Rightarrow> 'a list \<Rightarrow> nat" where
  "index_of x [] = 0"
| "index_of x (y # ys) = (if x = y then 0 else Suc (index_of x ys))"

definition insert_at :: "nat \<Rightarrow> 'a \<Rightarrow> 'a list \<Rightarrow> 'a list" where
  \<comment> \<open>\<^verbatim>\<open>xs.insert(i, x)\<close>\<close>
  "insert_at i x xs = take i xs @ [x] @ drop i xs"

fun show_nat :: "nat \<Rightarrow> ustr" where
  "show_nat n = (if n < 10 then [48 + n] else show_nat (n div 10) @ [48 + n mod 10])"

declare show_nat.simps [simp del]

section \<open>Labels\<close>

text \<open>
  The label of a row: column 0 as text, stripped; rows whose label is missing or empty are
  left out (\<open>None\<close>).
\<close>

definition clean_label :: "pylib \<Rightarrow> cell \<Rightarrow> ustr option" where
  "clean_label L c =
     (case astype_str L c of
        NA \<Rightarrow> None
      | S s \<Rightarrow> if strip s = [] then None else Some (strip s))"

text \<open>
  The rows labelled "other" get the suffix \<^verbatim>\<open>_temp_k\<close>, \<open>k\<close> counting their occurrences
  from 0 (\<^verbatim>\<open>groupby(...).cumcount()\<close>).
\<close>

definition temp_label :: "nat \<Rightarrow> ustr" where
  "temp_label k = sonota @ asc ''_temp_'' @ show_nat k"

fun mark_sonota :: "nat \<Rightarrow> (ustr \<times> 'a) list \<Rightarrow> (ustr \<times> 'a) list" where
  "mark_sonota k [] = []"
| "mark_sonota k ((l, v) # rs) =
     (if l = sonota then (temp_label k, v) # mark_sonota (Suc k) rs
      else (l, v) # mark_sonota k rs)"


text \<open>The number a value cell holds: its text without commas, read by \<^verbatim>\<open>pd.to_numeric\<close>.\<close>

definition num_cell :: "pylib \<Rightarrow> cell \<Rightarrow> rat option" where
  "num_cell L c =
     (case astype_str L c of
        NA \<Rightarrow> None
      | S s \<Rightarrow> to_numeric L (filter (\<lambda>x. x \<noteq> 44) s))"

text \<open>
  \<^verbatim>\<open>pd.merge(a, b, on=label, how="left")\<close>: the rows of \<open>a\<close> in their order, each joined
  with every row of \<open>b\<close> that has its label, or with NaN when there is none.
\<close>

definition merge_left :: "frame \<Rightarrow> frame \<Rightarrow> frame" where
  "merge_left a b =
     \<lparr>cols = cols a @ cols b,
      body = concat (map (\<lambda>(l, vs).
                case filter (\<lambda>r. fst r = l) (body b) of
                  [] \<Rightarrow> [(l, vs @ replicate (length (cols b)) None)]
                | ms \<Rightarrow> map (\<lambda>r. (l, vs @ snd r)) ms) (body a))\<rparr>"

definition truthy :: "ustr option \<Rightarrow> ustr option" where
  \<comment> \<open>\<^verbatim>\<open>if header:\<close> holds for a label that is not the empty text\<close>
  "truthy h = (case h of None \<Rightarrow> None | Some t \<Rightarrow> if t = [] then None else Some t)"

section \<open>The vertical merger\<close>



text \<open>The two-column slice below a header cell at row \<open>r\<close>, column \<open>c\<close>, as a frame.\<close>

definition labelled_rows :: "pylib \<Rightarrow> nat \<Rightarrow> sheet \<Rightarrow> (ustr \<times> cell) list" where
  \<comment> \<open>the rows with a label, each as its label and its cell in column \<open>c\<close>\<close>
  "labelled_rows L c rows =
     List.map_filter (\<lambda>rw. map_option (\<lambda>l. (l, cell_at rw c)) (clean_label L (cell0 rw))) rows"





section \<open>The horizontal merger\<close>

definition blank_to_na :: "cell \<Rightarrow> cell" where
  \<comment> \<open>\<^verbatim>\<open>replace(r'^\s*$', pd.NA, regex=True)\<close>\<close>
  "blank_to_na c = (case c of NA \<Rightarrow> NA | S s \<Rightarrow> if list_all is_space s then NA else S s)"

definition fill_empty :: "cell \<Rightarrow> cell" where
  \<comment> \<open>\<^verbatim>\<open>fillna("")\<close>\<close>
  "fill_empty c = (case c of NA \<Rightarrow> S [] | S s \<Rightarrow> S s)"

definition drop_blank_columns :: "sheet \<Rightarrow> sheet" where
  "drop_blank_columns df_chunk =
     (let blanked = map (map blank_to_na) df_chunk;
          keep = filter (\<lambda>j. list_ex (\<lambda>r. cell_at r j \<noteq> NA) blanked) [0 ..< ncols df_chunk]
      in map (\<lambda>r. map (cell_at r) keep) blanked)"

text \<open>The first cell of the first ten rows, row by row, that holds a period label.\<close>

definition find_header :: "pylib \<Rightarrow> sheet \<Rightarrow> (ustr \<times> nat) option" where
  "find_header L df_target =
     first_some (map (\<lambda>r. first_some (map (\<lambda>c.
         map_option (\<lambda>h. (h, r))
           (truthy (detect_year_header (upper_tab L) (cell_str (cell_at (df_target ! r) c)))))
         [0 ..< ncols df_target])) [0 ..< min 10 (length df_target)])"

text \<open>\<^verbatim>\<open>groupby(label, as_index=False).sum()\<close>: one row per label, the labels in ascending order.\<close>

definition group_sum :: "(ustr \<times> rat) list \<Rightarrow> (ustr \<times> rat) list" where
  "group_sum rs =
     map (\<lambda>l. (l, sum_list (map snd (filter (\<lambda>r. fst r = l) rs)))) (sort (remdups (map fst rs)))"

definition horizontal_target :: "sheet \<Rightarrow> sheet" where
  "horizontal_target df_chunk = map (map fill_empty) (drop_blank_columns df_chunk)"

definition start_row :: "pylib \<Rightarrow> sheet \<Rightarrow> nat" where
  "start_row L df_target = (case find_header L df_target of Some (h, r) \<Rightarrow> Suc r | None \<Rightarrow> 0)"

definition header_name :: "pylib \<Rightarrow> sheet \<Rightarrow> ustr" where
  "header_name L df_target =
     (case find_header L df_target of
        Some (h, r) \<Rightarrow> h
      | None \<Rightarrow>
          (let t = strip (cell_str (cell_at (hd df_target) (ncols df_target - 1)))
           in if t = [] then asc ''Unknown_Period'' else t))"

text \<open>
  The data of a horizontal chunk: the rows from the start row on that have a label and
  a number in the last column; the rows whose value is not a number are dropped.
\<close>

definition numeric_rows :: "pylib \<Rightarrow> (ustr \<times> cell) list \<Rightarrow> (ustr \<times> rat) list" where
  "numeric_rows L pairs = List.map_filter (\<lambda>(l, v). map_option (\<lambda>x. (l, x)) (num_cell L v)) pairs"

definition horizontal_data :: "pylib \<Rightarrow> sheet \<Rightarrow> (ustr \<times> rat) list" where
  "horizontal_data L df_chunk =
     (let df_target = horizontal_target df_chunk
      in numeric_rows L (labelled_rows L (ncols df_target - 1) (drop (start_row L df_target) df_target)))"

definition tool2_extract_data_horizontal :: "pylib \<Rightarrow> sheet \<Rightarrow> error + (frame option \<times> ustr list)" where
  "tool2_extract_data_horizontal L df_chunk =
     (if df_chunk = [] \<or> ncols df_chunk = 0 then Inr (None, [])
      else if ncols (drop_blank_columns df_chunk) < 2 then Inr (None, [])
      else
        let df_target = horizontal_target df_chunk;
            detected_header = header_name L df_target
        in if detected_header = key_column then Inl AttributeError
           else
             let temp_df = group_sum (mark_sonota 0 (horizontal_data L df_chunk))
             in Inr (Some \<lparr>cols = [detected_header], body = map (\<lambda>(l, x). (l, [Some x])) temp_df\<rparr>,
                     map fst temp_df))"

section \<open>Segmentation of the sheet\<close>















section \<open>The master item order\<close>

fun insert_items :: "ustr list \<Rightarrow> int \<Rightarrow> ustr list \<Rightarrow> ustr list" where
  "insert_items [] last_known_index current_master_order = current_master_order"
| "insert_items (item # rest) last_known_index current_master_order =
     (if item \<in> set current_master_order
      then insert_items rest (int (index_of item current_master_order)) current_master_order
      else insert_items rest (last_known_index + 1)
             (insert_at (nat (last_known_index + 1)) item current_master_order))"

definition update_master :: "ustr list \<Rightarrow> ustr list \<Rightarrow> ustr list" where
  "update_master current_master_order item_order =
     (if current_master_order = [] then item_order
      else insert_items item_order (- 1) current_master_order)"

section \<open>Aggregation\<close>











section \<open>The chronological sort key\<close>







section \<open>The summary of a table slot\<close>







section \<open>Two concrete libraries\<close>

text \<open>
  For running the model: ASCII only (no upper-case mapping beyond it), and numbers read
  from integer literals, an optional sign before ASCII digits, with blanks around them
  allowed. \<open>pandas2\<close> turns a missing value into the text "nan" under \<^verbatim>\<open>astype(str)\<close>,
  \<open>pandas3\<close> keeps it missing.
\<close>

definition digits_value :: "ustr \<Rightarrow> nat" where
  "digits_value ds = foldl (\<lambda>a c. 10 * a + (c - 48)) 0 ds"

definition ascii_digits :: "ustr \<Rightarrow> bool" where
  "ascii_digits ds \<longleftrightarrow> ds \<noteq> [] \<and> list_all (\<lambda>c. 48 \<le> c \<and> c \<le> 57) ds"

definition int_literal :: "ustr \<Rightarrow> rat option" where
  "int_literal s =
     (case strip s of
        [] \<Rightarrow> None
      | c # ds \<Rightarrow>
          if c = 45 \<and> ascii_digits ds then Some (- of_nat (digits_value ds))
          else if c = 43 \<and> ascii_digits ds then Some (of_nat (digits_value ds))
          else if ascii_digits (c # ds) then Some (of_nat (digits_value (c # ds)))
          else None)"

definition pandas2 :: pylib where
  "pandas2 = \<lparr>upper_tab = (\<lambda>c. [c]), astype_na = S (asc ''nan''), to_numeric = int_literal\<rparr>"

definition pandas3 :: pylib where
  "pandas3 = \<lparr>upper_tab = (\<lambda>c. [c]), astype_na = NA, to_numeric = int_literal\<rparr>"

section \<open>Auxiliary notions for the master item order\<close>



section \<open>Example sheets\<close>


text \<open>A horizontal table whose labels are not in ascending order, and one with a repeated label.\<close>

definition sheet_b_a :: sheet where
  "sheet_b_a = [[S (asc ''item''), S (asc ''2024Q1'')],
                [S (asc ''B''), S (asc ''2'')],
                [S (asc ''A''), S (asc ''1'')]]"


section \<open>Properties of period detection\<close>

lemma is_decimal_low: "c < 1632 \<Longrightarrow> is_decimal c \<longleftrightarrow> 48 \<le> c \<and> c \<le> 57"
  by (auto simp add: is_decimal_def decimal_value_def decimal_zeros_def)

lemma takeWhile_length_ge:
  "n \<le> length (takeWhile P s) \<longleftrightarrow> n \<le> length s \<and> (\<forall>x\<in>set (take n s). P x)"
proof (induction s arbitrary: n)
  case Nil
  then show ?case by simp
next
  case (Cons a s)
  then show ?case by (cases n) auto
qed

lemma first_some_single: "first_some [x] = x"
  by (cases x) simp_all

lemma counts_exact: "counts (Rep c n (Some n)) k = (if n \<le> k then [n] else [])"
  by (auto simp add: min_def not_le)

lemma rmatch_exact:
  "rmatch (Rep c n (Some n) # p) b m g caps s =
     (if n \<le> length s \<and> (\<forall>x\<in>set (take n s). cls_ok c x)
      then rmatch p b (m @ take n s) g caps (drop n s) else None)"
  by (simp add: counts_exact takeWhile_length_ge first_some_single del: counts.simps)

lemma rmatch_one:
  "rmatch (one c # p) b m g caps s =
     (case s of [] \<Rightarrow> None | x # r \<Rightarrow> if cls_ok c x then rmatch p b (m @ [x]) g caps r else None)"
  by (cases s) (simp_all add: rmatch_exact del: rmatch.simps)

lemma rmatch_two:
  "rmatch (Rep c 2 (Some 2) # p) b m g caps s =
     (case s of x # y # r \<Rightarrow> if cls_ok c x \<and> cls_ok c y then rmatch p b (m @ [x, y]) g caps r else None
      | _ \<Rightarrow> None)"
  by (cases s; cases "tl s") (auto simp add: rmatch_exact simp del: rmatch.simps)

lemma rmatch_quarter:
  "rmatch pat_quarter b [] 0 [] s =
     (if quarter_code (take 6 s) then Some (take 6 s, [take 6 s]) else None)"
proof -
  have "rmatch pat_quarter b [] 0 [] s =
     (case s of
        a # b # c # d # e # f # r \<Rightarrow>
          if quarter_code [a, b, c, d, e, f] then Some ([a, b, c, d, e, f], [[a, b, c, d, e, f]]) else None
      | _ \<Rightarrow> None)"
    unfolding pat_quarter_def
    by (auto simp add: rmatch_one rmatch_two quarter_code_def simp del: rmatch.simps(6) split: list.splits)
  then show ?thesis
    by (simp add: quarter_code_def split: list.splits)
qed

lemma quarter_code_length: "quarter_code q \<Longrightarrow> length q = 6"
  by (auto simp add: quarter_code_def split: list.splits)

lemma search_quarter_found:
  "quarter_code q \<Longrightarrow>
   \<exists>q'. quarter_code q' \<and> search_from pat_quarter b (pre @ q @ post) = Some (q', [q'])"
proof (induction pre arbitrary: b)
  case Nil
  then obtain c r where "q @ post = c # r"
    by (cases q) (auto simp add: quarter_code_def)
  moreover have "take 6 (q @ post) = q"
    using Nil by (simp add: quarter_code_length)
  ultimately show ?case
    using Nil by (auto simp add: rmatch_quarter)
next
  case (Cons a pre)
  show ?case
  proof (cases "quarter_code (take 6 (a # pre @ q @ post))")
    case True
    then show ?thesis by (auto simp add: rmatch_quarter)
  next
    case False
    then show ?thesis
      using Cons.IH [OF Cons.prems, of False] by (simp add: rmatch_quarter)
  qed
qed

lemma dropWhile_keeps:
  "q \<noteq> [] \<Longrightarrow> \<not> P (hd q) \<Longrightarrow> \<exists>pre'. dropWhile P (pre @ q @ post) = pre' @ q @ post"
proof (induction pre)
  case Nil
  then show ?case by (cases q) auto
next
  case (Cons x pre)
  then show ?case by (cases "P x") (auto intro: exI [of _ "x # pre"])
qed

lemma strip_keeps:
  assumes "q \<noteq> []" "\<not> is_space (hd q)" "\<not> is_space (last q)"
  shows "\<exists>pre' post'. strip (pre @ q @ post) = pre' @ q @ post'"
proof -
  from assms obtain pre' where 1: "dropWhile is_space (pre @ q @ post) = pre' @ q @ post"
    using dropWhile_keeps by blast
  have "rev q \<noteq> []" "\<not> is_space (hd (rev q))"
    using assms by (simp_all add: hd_rev)
  then obtain post' where 2: "dropWhile is_space (rev post @ rev q @ rev pre') = post' @ rev q @ rev pre'"
    using dropWhile_keeps by blast
  have "strip (pre @ q @ post) = pre' @ q @ rev post'"
    by (simp add: strip_def 1 2)
  then show ?thesis by blast
qed

lemma quarter_code_ends:
  "quarter_code q \<Longrightarrow> q \<noteq> [] \<and> \<not> is_space (hd q) \<and> \<not> is_space (last q)"
  by (auto simp add: quarter_code_def is_space_def split: list.splits)

lemma detect_quarter:
  assumes "quarter_code q"
  shows "\<exists>q'. quarter_code q' \<and> detect_year_header uc (pre @ q @ post) = Some (upper uc q')"
proof -
  obtain pre' post' where "strip (pre @ q @ post) = pre' @ q @ post'"
    using strip_keeps quarter_code_ends [OF assms] by blast
  moreover obtain q' where "quarter_code q'"
    "search_from pat_quarter True (pre' @ q @ post') = Some (q', [q'])"
    using search_quarter_found [OF assms] by blast
  ultimately show ?thesis
    by (auto simp add: detect_year_header_def patterns_def try_pattern_def re_search_def grp_def)
qed

lemma not_decimal_kanji:
  "\<not> is_decimal 24180" "\<not> is_decimal 26376" "\<not> is_decimal 24230" "\<not> is_decimal 33258"
  "\<not> is_decimal 26399"
  by (simp_all add: is_decimal_def decimal_value_def decimal_zeros_def)

lemmas detect_eval = detect_year_header_def asc_def strip_def is_space_def patterns_def
  try_pattern_def re_search_def pat_quarter_def pat_from_def pat_year_month_def pat_fiscal_def
  pat_yy_m_def pat_yyyy_m_def pat_plain_def is_decimal_low not_decimal_kanji upper_def grp_def
  fmt_slash_def nen_def gatsu_def do_ch_def ji_def

lemma detect_example_quarter:
  "detect_year_header uc (asc ''2024Q1'') = Some (asc ''2024Q1'')"
  by (simp add: detect_eval)

lemma detect_example_from:
  "detect_year_header uc ([40, ji, 32] @ asc ''2024'' @ [nen] @ asc ''4'' @ [gatsu]) = Some (asc ''2024/4'')"
  by (simp add: detect_eval)

lemma detect_example_term:
  "detect_year_header uc (asc ''2024'' @ [nen] @ asc ''3'' @ [gatsu, 26399]) = Some (asc ''2024/3'')"
  by (simp add: detect_eval)

lemma detect_example_yy:
  "detect_year_header uc (39 # asc ''24/3'') = Some (asc ''2024/3'')"
  by (simp add: detect_eval)

lemma detect_example_plain:
  "detect_year_header uc (asc ''202403'') = Some (asc ''202403'')"
  by (simp add: detect_eval)

lemma detect_example_none:
  "detect_year_header uc (asc ''hello'') = None"
  by (simp add: detect_eval)

lemma first_some_find:
  "first_some (map f xs) = (case find (\<lambda>x. f x \<noteq> None) xs of None \<Rightarrow> None | Some x \<Rightarrow> f x)"
  by (induction xs) (auto split: option.splits)

text \<open>
  C1. Period detection is a total function of the cell text: it strips the text, tries the
  seven matchers in the order quarter code, period start, year and month, fiscal year,
  two-digit year and month, four-digit year and month, bare number, and returns the label
  of the first one that matches, or nothing when none does. It gives 2024Q1 for "2024Q1",
  2024/4 for the period start of April 2024, a label for the term ending March 2024,
  2024/3 for the two-digit "'24/3", 202403 for "202403" and nothing for "hello"; and a text
  that contains a quarter code anywhere is labelled by the quarter rule, with the
  (upper-cased) quarter code it contains.
\<close>

theorem detect_year_header_first_match:
  "detect_year_header uc cell =
     (case find (\<lambda>pf. re_search (fst pf) (strip cell) \<noteq> None) (patterns uc) of
        None \<Rightarrow> None
      | Some pf \<Rightarrow> map_option (snd pf) (re_search (fst pf) (strip cell)))
   \<and> map fst (patterns uc) =
       [pat_quarter, pat_from, pat_year_month, pat_fiscal, pat_yy_m, pat_yyyy_m, pat_plain]
   \<and> detect_year_header uc (asc ''2024Q1'') = Some (asc ''2024Q1'')
   \<and> detect_year_header uc ([40, ji, 32] @ asc ''2024'' @ [nen] @ asc ''4'' @ [gatsu]) = Some (asc ''2024/4'')
   \<and> detect_year_header uc (asc ''2024'' @ [nen] @ asc ''3'' @ [gatsu, 26399]) \<noteq> None
   \<and> detect_year_header uc (39 # asc ''24/3'') = Some (asc ''2024/3'')
   \<and> detect_year_header uc (asc ''202403'') = Some (asc ''202403'')
   \<and> detect_year_header uc (asc ''hello'') = None
   \<and> (quarter_code q \<longrightarrow>
        (\<exists>q'. quarter_code q' \<and> detect_year_header uc (pre @ q @ post) = Some (upper uc q')))"
proof -
  have "detect_year_header uc cell =
     (case find (\<lambda>pf. re_search (fst pf) (strip cell) \<noteq> None) (patterns uc) of
        None \<Rightarrow> None
      | Some pf \<Rightarrow> map_option (snd pf) (re_search (fst pf) (strip cell)))"
    unfolding detect_year_header_def first_some_find
    by (simp add: try_pattern_def cong: option.case_cong)
  moreover have "map fst (patterns uc) =
       [pat_quarter, pat_from, pat_year_month, pat_fiscal, pat_yy_m, pat_yyyy_m, pat_plain]"
    by (simp add: patterns_def)
  ultimately show ?thesis
    using detect_example_quarter detect_example_from detect_example_term detect_example_yy
      detect_example_plain detect_example_none detect_quarter
    by simp
qed

theorem detect_year_header_first_match_witness:
  "quarter_code (asc ''2024q3'') \<and>
   (\<exists>q'. quarter_code q' \<and>
      detect_year_header (\<lambda>c. [c]) (asc ''FY '' @ asc ''2024q3'' @ asc '' (202403)'') = Some (upper (\<lambda>c. [c]) q'))"
proof -
  have q: "quarter_code (asc ''2024q3'')"
    by (simp add: quarter_code_def asc_def is_decimal_low)
  with detect_year_header_first_match [of "\<lambda>c. [c]" "[]" "asc ''2024q3''" "asc ''FY ''" "asc '' (202403)''"]
  show ?thesis by blast
qed

section \<open>Properties of the master item order\<close>





















section \<open>Properties of the sort key\<close>




















section \<open>Evaluating the program on the example sheets\<close>

lemma detect_cells:
  "detect_year_header uc (asc ''item'') = None"
  "detect_year_header uc (asc ''Sales'') = None"
  "detect_year_header uc (asc ''200'') = None"
  "detect_year_header uc (asc ''100'') = None"
  "detect_year_header uc (asc ''2024Q2'') = Some (asc ''2024Q2'')"
  "detect_year_header uc (asc ''2024Q1'') = Some (asc ''2024Q1'')"
  by (simp_all add: detect_eval)



lemmas detect_cells_nf = detect_cells [unfolded asc_def, simplified]

lemma int_literal_cells:
  "int_literal (asc ''200'') = Some 200" "int_literal (asc ''100'') = Some 100"
  by (simp_all add: int_literal_def asc_def strip_def is_space_def ascii_digits_def digits_value_def)

lemmas int_literal_nf = int_literal_cells [unfolded asc_def, simplified]

lemmas sheet_eval = ncols_def cell_at_def cell0_def cell_str_def astype_str_def truthy_def
  List.map_filter_simps clean_label_def strip_def is_space_def num_cell_def merge_left_def
  pandas2_def asc_def sonota_def
















section \<open>Properties of the two mergers\<close>

lemma group_sum_labels: "map fst (group_sum rs) = sort (remdups (map fst rs))"
  by (simp add: group_sum_def comp_def)

lemma horizontal_items:
  assumes "tool2_extract_data_horizontal L df_chunk = Inr (fr, item_list)"
  shows "sorted item_list \<and> distinct item_list \<and> (\<forall>f. fr = Some f \<longrightarrow> map fst (body f) = item_list)"
proof (cases "fr")
  case None
  with assms have "item_list = []"
    by (auto simp add: tool2_extract_data_horizontal_def Let_def split: if_splits)
  with None show ?thesis by simp
next
  case (Some f)
  with assms have il: "item_list = map fst (group_sum (mark_sonota 0 (horizontal_data L df_chunk)))"
    and f: "body f = map (\<lambda>(l, x). (l, [Some x])) (group_sum (mark_sonota 0 (horizontal_data L df_chunk)))"
    by (auto simp add: tool2_extract_data_horizontal_def Let_def split: if_splits)
  have "map fst (body f) = item_list"
    unfolding f il by (simp add: comp_def case_prod_beta)
  moreover have "sorted item_list" "distinct item_list"
    unfolding il group_sum_labels by simp_all
  ultimately show ?thesis using Some by simp
qed








lemma detect_cells_more:
  "detect_year_header uc (asc ''A'') = None"
  "detect_year_header uc (asc ''B'') = None"
  "detect_year_header uc (asc ''1'') = None"
  "detect_year_header uc (asc ''2'') = None"
  "detect_year_header uc (asc ''50'') = None"
  by (simp_all add: detect_eval)

lemmas detect_cells_more_nf = detect_cells_more [unfolded asc_def, simplified]

lemma int_literal_more:
  "int_literal (asc ''1'') = Some 1" "int_literal (asc ''2'') = Some 2" "int_literal (asc ''50'') = Some 50"
  by (simp_all add: int_literal_def asc_def strip_def is_space_def ascii_digits_def digits_value_def)

lemmas int_literal_more_nf = int_literal_more [unfolded asc_def, simplified]

lemmas horizontal_eval = drop_blank_columns_def blank_to_na_def fill_empty_def horizontal_target_def
  header_name_def start_row_def find_header_def numeric_rows_def labelled_rows_def horizontal_data_def
  group_sum_def key_column_def

lemma horizontal_data_b_a:
  "horizontal_data pandas2 sheet_b_a = [(asc ''B'', 2), (asc ''A'', 1)]"
  by (simp add: sheet_b_a_def horizontal_eval sheet_eval detect_cells_nf detect_cells_more_nf
      int_literal_nf int_literal_more_nf)

lemma horizontal_b_a:
  "tool2_extract_data_horizontal pandas2 sheet_b_a =
     Inr (Some \<lparr>cols = [asc ''2024Q1''], body = [(asc ''A'', [Some 1]), (asc ''B'', [Some 2])]\<rparr>,
          [asc ''A'', asc ''B''])"
  unfolding tool2_extract_data_horizontal_def horizontal_data_b_a
  by (simp add: sheet_b_a_def horizontal_eval sheet_eval detect_cells_nf detect_cells_more_nf)





text \<open>
  C9. The item list that the horizontal merger returns is the list of the labels of its
  frame, and it is the sorted list of the distinct labels of the data rows (after the
  "other" rows got their suffix): ascending, without repetition. It is what seeds the
  master item order of a slot whose first frame is horizontal. The order of first
  occurrence is not kept: the chunk with the rows B, A gives the item list A, B.
\<close>

theorem horizontal_item_list_sorted:
  "(tool2_extract_data_horizontal L df_chunk = Inr (fr, item_list)
      \<longrightarrow> sorted item_list \<and> distinct item_list
          \<and> (\<forall>f. fr = Some f \<longrightarrow> map fst (body f) = item_list
                \<and> item_list = sort (remdups (map fst (mark_sonota 0 (horizontal_data L df_chunk))))))
   \<and> update_master [] item_list = item_list
   \<and> map fst (horizontal_data pandas2 sheet_b_a) = [asc ''B'', asc ''A'']
   \<and> tool2_extract_data_horizontal pandas2 sheet_b_a =
       Inr (Some \<lparr>cols = [asc ''2024Q1''], body = [(asc ''A'', [Some 1]), (asc ''B'', [Some 2])]\<rparr>,
            [asc ''A'', asc ''B''])"
proof -
  have a: "sorted item_list \<and> distinct item_list
          \<and> (\<forall>f. fr = Some f \<longrightarrow> map fst (body f) = item_list
                \<and> item_list = sort (remdups (map fst (mark_sonota 0 (horizontal_data L df_chunk)))))"
    if h: "tool2_extract_data_horizontal L df_chunk = Inr (fr, item_list)"
  proof -
    have "item_list = sort (remdups (map fst (mark_sonota 0 (horizontal_data L df_chunk))))"
      if "fr = Some f" for f
      using h that
      by (auto simp add: tool2_extract_data_horizontal_def Let_def group_sum_labels split: if_splits)
    with horizontal_items [OF h] show ?thesis by simp
  qed
  have b: "update_master [] item_list = item_list" by (simp add: update_master_def)
  have c: "map fst (horizontal_data pandas2 sheet_b_a) = [asc ''B'', asc ''A'']"
    by (simp add: horizontal_data_b_a)
  show ?thesis by (intro conjI impI a b c horizontal_b_a)
qed

theorem horizontal_item_list_sorted_witness:
  "tool2_extract_data_horizontal pandas2 sheet_b_a =
       Inr (Some \<lparr>cols = [asc ''2024Q1''], body = [(asc ''A'', [Some 1]), (asc ''B'', [Some 2])]\<rparr>,
            [asc ''A'', asc ''B''])
   \<and> sorted [asc ''A'', asc ''B''] \<and> distinct [asc ''A'', asc ''B'']"
proof -
  note T = horizontal_item_list_sorted [where L = pandas2 and df_chunk = sheet_b_a
      and fr = "Some \<lparr>cols = [asc ''2024Q1''], body = [(asc ''A'', [Some 1]), (asc ''B'', [Some 2])]\<rparr>"
      and item_list = "[asc ''A'', asc ''B'']"]
  have "sorted [asc ''A'', asc ''B''] \<and> distinct [asc ''A'', asc ''B'']"
    using T [THEN conjunct1, rule_format, OF horizontal_b_a] by (intro conjI) (elim conjE, assumption)+
  then show ?thesis using horizontal_b_a by (intro conjI) simp_all
qed




end
